theory Spec2Isabelle
  imports Main "HOL-Library.AList"
begin

section \<open>Values shared by the tool handlers\<close>

text \<open>
  The handlers of \<^verbatim>\<open>MyMCP.init\<close> await calls of the HTTP client and catch whatever these
  throw. A thrown value is read in two ways only: \<^verbatim>\<open>error.message\<close>, and, for a failure
  that carries an HTTP response, \<^verbatim>\<open>error.response.status\<close> and
  \<^verbatim>\<open>error.response.data.errors[0].message\<close>. A plain \<^verbatim>\<open>new Error(msg)\<close> has no response.
  An awaited call is a value of a sum type: \<open>Inl\<close> the thrown error, \<open>Inr\<close> what it
  resolved to.
\<close>

record err_response =
  err_status :: nat
  errors0_message :: "string option"

record js_error =
  message :: string
  response :: "err_response option"

definition Error :: "string \<Rightarrow> js_error" where
  "Error msg = \<lparr>message = msg, response = None\<rparr>"

text \<open>
  The tool result \<^verbatim>\<open>{content: [...]}\<close>: an item is \<^verbatim>\<open>{type: "text", text}\<close> or
  \<^verbatim>\<open>{type: "resource", resource: {uri, blob?, text?, mimeType?}}\<close>.
\<close>

record resource =
  uri :: string
  blob :: "string option"
  rtext :: "string option"
  mimeType :: "string option"

datatype content_item = Text string | Resource resource

record tool_result =
  content :: "content_item list"

section \<open>scrapeUrlAndSublinks\<close>

text \<open>
  What the handler reads of a fetched page after \<^verbatim>\<open>cheerio.load(response.data)\<close>:
  \<^verbatim>\<open>$("body").text().trim()\<close> and the \<^verbatim>\<open>href\<close> values of \<^verbatim>\<open>$("a[href]")\<close> in document
  order. Fetching and loading sit in the same \<^verbatim>\<open>try\<close> block, for the root and for each
  sublink, so one fallible operation per request models both.
\<close>

record page =
  body_text :: string
  a_hrefs :: "string list"

text \<open>
  The network is not a function of the URL: the same address may answer differently on a
  second request. \<open>axios_get n u\<close> is the outcome of requesting \<open>u\<close> when \<open>n\<close> requests have
  been issued before in this invocation. \<open>new URL(href, base).toString()\<close> throws on an
  href that does not parse; it is a parameter of the model.
\<close>

type_synonym axios_get = "nat \<Rightarrow> string \<Rightarrow> js_error + page"
type_synonym url_ctor = "string \<Rightarrow> string \<Rightarrow> js_error + string"

text \<open>The object handed to \<^verbatim>\<open>JSON.stringify\<close>; \<open>sublinks\<close> keeps insertion order.\<close>

record crawl_result =
  main_url :: string
  main_text :: string
  sublinks :: "(string \<times> string) list"

text \<open>The value stored for one sublink: the inner \<^verbatim>\<open>try\<close>/\<^verbatim>\<open>catch\<close>.\<close>

definition sublink_text :: "js_error + page \<Rightarrow> string" where
  "sublink_text subResponse =
     (case subResponse of
        Inr subPage \<Rightarrow> body_text subPage
      | Inl error \<Rightarrow> ''Error fetching sublink: '' @ message error)"

text \<open>
  The \<^verbatim>\<open>for (const sublink of sublinks)\<close> loop. The state is \<open>sublinkTexts\<close> and the list
  of the URLs requested so far. \<^verbatim>\<open>new URL\<close> is outside the inner \<^verbatim>\<open>try\<close>: when it throws,
  the loop is left with the error.
\<close>

fun sublink_loop ::
  "axios_get \<Rightarrow> url_ctor \<Rightarrow> string \<Rightarrow> string list \<Rightarrow> (string \<times> string) list \<Rightarrow> string list
     \<Rightarrow> (js_error + (string \<times> string) list) \<times> string list" where
  "sublink_loop get newURL url [] sublinkTexts requested = (Inr sublinkTexts, requested)"
| "sublink_loop get newURL url (sublink # rest) sublinkTexts requested =
     (case newURL sublink url of
        Inl error \<Rightarrow> (Inl error, requested)
      | Inr sublinkUrl \<Rightarrow>
          sublink_loop get newURL url rest
            (AList.update sublinkUrl (sublink_text (get (length requested) sublinkUrl)) sublinkTexts)
            (requested @ [sublinkUrl]))"

text \<open>The body of the outer \<^verbatim>\<open>try\<close>, up to the object that is serialised.\<close>

definition scrape_try ::
  "axios_get \<Rightarrow> url_ctor \<Rightarrow> string \<Rightarrow> (js_error + crawl_result) \<times> string list" where
  "scrape_try get newURL url =
     (case get 0 url of
        Inl error \<Rightarrow> (Inl error, [url])
      | Inr rootPage \<Rightarrow>
          (let mainText = body_text rootPage;
               sublinkList = take 5 (a_hrefs rootPage)
           in case sublink_loop get newURL url sublinkList [] [url] of
                (Inl error, requested) \<Rightarrow> (Inl error, requested)
              | (Inr sublinkTexts, requested) \<Rightarrow>
                  (Inr \<lparr>main_url = url, main_text = mainText, sublinks = sublinkTexts\<rparr>,
                   requested)))"

text \<open>The handler: the result of the tool, and the URLs it requested, in order.\<close>

definition scrapeUrlAndSublinks ::
  "axios_get \<Rightarrow> url_ctor \<Rightarrow> (crawl_result \<Rightarrow> string) \<Rightarrow> string \<Rightarrow> tool_result \<times> string list" where
  "scrapeUrlAndSublinks get newURL JSON_stringify url =
     (case scrape_try get newURL url of
        (Inr r, requested) \<Rightarrow>
          (\<lparr>content = [Resource \<lparr>uri = url, blob = None,
                                  rtext = Some (JSON_stringify r), mimeType = None\<rparr>]\<rparr>,
           requested)
      | (Inl error, requested) \<Rightarrow>
          (\<lparr>content = [Text (''Error: '' @ message error)]\<rparr>, requested))"

section \<open>Strings and numbers of the host language\<close>

text \<open>\<^verbatim>\<open>a || b\<close> on an optional string: \<^verbatim>\<open>undefined\<close> and \<^verbatim>\<open>""\<close> are falsy.\<close>

definition js_or :: "string option \<Rightarrow> string \<Rightarrow> string" where
  "js_or a b = (case a of None \<Rightarrow> b | Some s \<Rightarrow> if s = [] then b else s)"

text \<open>\<^verbatim>\<open>String.prototype.startsWith\<close> and \<^verbatim>\<open>String.prototype.includes\<close>.\<close>

definition startsWith :: "string \<Rightarrow> string \<Rightarrow> bool" where
  "startsWith s p = (take (length p) s = p)"

fun str_includes :: "string \<Rightarrow> string \<Rightarrow> bool" where
  "str_includes [] sub = (sub = [])"
| "str_includes (c # cs) sub = (startsWith (c # cs) sub \<or> str_includes cs sub)"

text \<open>A status code inside a template literal: its decimal digits.\<close>

definition digit_char :: "nat \<Rightarrow> char" where
  "digit_char d = ''0123456789'' ! d"

fun string_of_nat :: "nat \<Rightarrow> string" where
  "string_of_nat n =
     (if n < 10 then [digit_char n] else string_of_nat (n div 10) @ [digit_char (n mod 10)])"

declare string_of_nat.simps [simp del]

section \<open>Configuration and upstream responses\<close>

text \<open>
  The module constants read from \<^verbatim>\<open>process.env\<close> (each with a literal default) are taken
  as a configuration record; \<^verbatim>\<open>R2_URL\<close> is a literal.
\<close>

record config =
  CLOUDFLARE_API_KEY :: string
  CLOUDFLARE_EMAIL :: string
  CLOUDFLARE_ACCOUNT_ID :: string
  CLOUDFLARE_NAMESPACE_ID :: string

definition R2_URL :: string where
  "R2_URL = ''https://pub-3bf40eb073024dc2846e1518b851c583.r2.dev''"

record 'd http_response =
  status :: nat
  statusText :: string
  data :: 'd

datatype payload_value = S string | N nat

type_synonym headers = "(string \<times> string) list"

text \<open>
  The message of every outer \<^verbatim>\<open>catch\<close> but the crawler's:
  \<^verbatim>\<open>error.response?.data?.errors?.[0]?.message || error.message\<close>.
\<close>

definition bestEffortMessage :: "js_error \<Rightarrow> string" where
  "bestEffortMessage error =
     js_or (case response error of None \<Rightarrow> None | Some r \<Rightarrow> errors0_message r) (message error)"

definition request_failed :: "nat \<Rightarrow> string \<Rightarrow> js_error" where
  "request_failed st stText = Error (''Request failed: '' @ string_of_nat st @ '' - '' @ stText)"

section \<open>fetchAudioAndSave\<close>

text \<open>
  The response data is read through \<^verbatim>\<open>response.data?.result?.audio\<close> only: \<open>data\<close> is that
  optional string. \<open>audioId\<close> is the value of \<^verbatim>\<open>uuid.v4()\<close> drawn in this invocation.
\<close>

type_synonym axios_post =
  "string \<Rightarrow> (string \<times> payload_value) list \<Rightarrow> headers \<Rightarrow> js_error + (string option) http_response"

definition tts_apiUrl :: "config \<Rightarrow> string" where
  "tts_apiUrl cfg = ''https://api.cloudflare.com/client/v4/accounts/'' @ CLOUDFLARE_ACCOUNT_ID cfg
     @ ''/ai/run/@cf/myshell-ai/melotts''"

definition json_headers :: "config \<Rightarrow> headers" where
  "json_headers cfg =
     [(''Content-Type'', ''application/json''),
      (''X-Auth-Email'', CLOUDFLARE_EMAIL cfg),
      (''X-Auth-Key'', CLOUDFLARE_API_KEY cfg)]"

definition tts_payload :: "string option \<Rightarrow> string option \<Rightarrow> (string \<times> payload_value) list" where
  "tts_payload text_in lang_in =
     [(''prompt'', S (case text_in of None \<Rightarrow> [] | Some t \<Rightarrow> t)),
      (''lang'', S (case lang_in of None \<Rightarrow> ''en'' | Some l \<Rightarrow> l))]"

definition fetchAudioAndSave_try ::
  "config \<Rightarrow> axios_post \<Rightarrow> string \<Rightarrow> string option \<Rightarrow> string option \<Rightarrow> js_error + tool_result" where
  "fetchAudioAndSave_try cfg post audioId text_in lang_in =
     (case post (tts_apiUrl cfg) (tts_payload text_in lang_in) (json_headers cfg) of
        Inl error \<Rightarrow> Inl error
      | Inr resp \<Rightarrow>
          if status resp = 200 then
            (case data resp of
               None \<Rightarrow> Inl (Error ''Audio data not found in the response.'')
             | Some audioBase64 \<Rightarrow>
                 if audioBase64 = [] then Inl (Error ''Audio data not found in the response.'')
                 else Inr \<lparr>content =
                   [Text (''Generated audio ID: '' @ audioId),
                    Resource \<lparr>uri = ''data:audio/mp3;base64,'' @ audioBase64,
                              blob = Some audioBase64, rtext = None,
                              mimeType = Some ''audio/mp3''\<rparr>]\<rparr>)
          else Inl (request_failed (status resp) (statusText resp)))"

definition fetchAudioAndSave ::
  "config \<Rightarrow> axios_post \<Rightarrow> string \<Rightarrow> string option \<Rightarrow> string option \<Rightarrow> tool_result" where
  "fetchAudioAndSave cfg post audioId text_in lang_in =
     (case fetchAudioAndSave_try cfg post audioId text_in lang_in of
        Inr result \<Rightarrow> result
      | Inl error \<Rightarrow> \<lparr>content = [Text (''Error: '' @ bestEffortMessage error)]\<rparr>)"

section \<open>summarizeText\<close>

definition summarize_apiUrl :: "config \<Rightarrow> string" where
  "summarize_apiUrl cfg = ''https://api.cloudflare.com/client/v4/accounts/''
     @ CLOUDFLARE_ACCOUNT_ID cfg @ ''/ai/run/@cf/facebook/bart-large-cnn''"

definition summarize_payload :: "string \<Rightarrow> (string \<times> payload_value) list" where
  "summarize_payload text_in = [(''input_text'', S text_in), (''max_tokens'', N 100)]"

definition summarizeText_try :: "config \<Rightarrow> axios_post \<Rightarrow> string \<Rightarrow> js_error + tool_result" where
  "summarizeText_try cfg post text_in =
     (case post (summarize_apiUrl cfg) (summarize_payload text_in) (json_headers cfg) of
        Inl error \<Rightarrow> Inl error
      | Inr resp \<Rightarrow>
          if status resp = 200 then
            (case data resp of
               None \<Rightarrow> Inl (Error ''Summary data not found in the response.'')
             | Some summary \<Rightarrow>
                 if summary = [] then Inl (Error ''Summary data not found in the response.'')
                 else Inr \<lparr>content = [Text summary]\<rparr>)
          else Inl (request_failed (status resp) (statusText resp)))"

definition summarizeText :: "config \<Rightarrow> axios_post \<Rightarrow> string \<Rightarrow> tool_result" where
  "summarizeText cfg post text_in =
     (case summarizeText_try cfg post text_in of
        Inr result \<Rightarrow> result
      | Inl error \<Rightarrow> \<lparr>content = [Text (''Error: '' @ bestEffortMessage error)]\<rparr>)"

section \<open>uploadAudioToR2\<close>

text \<open>
  \<open>Buffer_from\<close> stands for \<^verbatim>\<open>Buffer.from(fileData, 'base64')\<close>, which never throws; the
  upload sends its bytes and their count. \<open>uuid\<close> is the value of \<^verbatim>\<open>uuid.v4()\<close>.
\<close>

type_synonym 'b axios_put = "string \<Rightarrow> 'b list \<Rightarrow> headers \<Rightarrow> js_error + unit http_response"

definition finalContentType :: "string option \<Rightarrow> string \<Rightarrow> string" where
  "finalContentType contentType fileData =
     js_or contentType (if startsWith fileData ''UklGR'' then ''audio/wav'' else ''audio/mp3'')"

definition extension :: "string \<Rightarrow> string" where
  "extension contentType = (if str_includes contentType ''wav'' then ''wav'' else ''mp3'')"

definition finalFileName :: "string \<Rightarrow> string option \<Rightarrow> string option \<Rightarrow> string \<Rightarrow> string" where
  "finalFileName uuid fileName contentType fileData =
     js_or fileName
       (''audio-'' @ uuid @ ''.'' @ extension (finalContentType contentType fileData))"

definition uploadUrl :: "config \<Rightarrow> string \<Rightarrow> string" where
  "uploadUrl cfg name = ''https://api.cloudflare.com/client/v4/accounts/''
     @ CLOUDFLARE_ACCOUNT_ID cfg @ ''/r2/buckets/'' @ ''uploads'' @ ''/objects/'' @ name"

definition upload_headers :: "config \<Rightarrow> string \<Rightarrow> nat \<Rightarrow> headers" where
  "upload_headers cfg contentType len =
     [(''Content-Type'', contentType),
      (''X-Auth-Email'', CLOUDFLARE_EMAIL cfg),
      (''X-Auth-Key'', CLOUDFLARE_API_KEY cfg),
      (''Content-Length'', string_of_nat len)]"

definition uploadAudioToR2_try ::
  "config \<Rightarrow> 'b axios_put \<Rightarrow> (string \<Rightarrow> 'b list) \<Rightarrow> string
     \<Rightarrow> string \<Rightarrow> string option \<Rightarrow> string option \<Rightarrow> js_error + tool_result" where
  "uploadAudioToR2_try cfg put Buffer_from uuid fileData fileName contentType =
     (let ctype = finalContentType contentType fileData;
          name = finalFileName uuid fileName contentType fileData;
          fileBuffer = Buffer_from fileData
      in case put (uploadUrl cfg name) fileBuffer (upload_headers cfg ctype (length fileBuffer)) of
           Inl error \<Rightarrow> Inl error
         | Inr resp \<Rightarrow>
             if status resp = 200 \<or> status resp = 201 then
               (let fileUrl = R2_URL @ ''/'' @ name
                in Inr \<lparr>content =
                     [Text (''File successfully uploaded to R2 storage.'' @ [CHR 0x0A]
                            @ ''File: '' @ name @ [CHR 0x0A]
                            @ ''URL: '' @ fileUrl @ [CHR 0x0A]
                            @ ''Type: '' @ ctype),
                      Resource \<lparr>uri = fileUrl, blob = Some fileData, rtext = None,
                                mimeType = Some ctype\<rparr>]\<rparr>)
             else Inl (Error (''Upload failed: '' @ string_of_nat (status resp) @ '' - ''
                              @ statusText resp)))"

definition uploadAudioToR2 ::
  "config \<Rightarrow> 'b axios_put \<Rightarrow> (string \<Rightarrow> 'b list) \<Rightarrow> string
     \<Rightarrow> string \<Rightarrow> string option \<Rightarrow> string option \<Rightarrow> tool_result" where
  "uploadAudioToR2 cfg put Buffer_from uuid fileData fileName contentType =
     (case uploadAudioToR2_try cfg put Buffer_from uuid fileData fileName contentType of
        Inr result \<Rightarrow> result
      | Inl error \<Rightarrow>
          \<lparr>content = [Text (''Error uploading to R2: '' @ bestEffortMessage error)]\<rparr>)"

section \<open>getFromCloudflareKV\<close>

text \<open>
  The stored value arrives as a string or as parsed JSON
  (\<^verbatim>\<open>typeof value === 'string' ? value : JSON.stringify(value)\<close>). \<^verbatim>\<open>encodeURIComponent\<close>
  throws on a key that is not well-formed UTF-16; it is a parameter, as is the serialiser.
\<close>

datatype 'j kv_value = StringValue string | JsonValue 'j

type_synonym 'j kv_get = "string \<Rightarrow> headers \<Rightarrow> js_error + ('j kv_value) http_response"

definition kv_headers :: "config \<Rightarrow> headers" where
  "kv_headers cfg =
     [(''X-Auth-Email'', CLOUDFLARE_EMAIL cfg), (''X-Auth-Key'', CLOUDFLARE_API_KEY cfg)]"

definition kvUrl :: "config \<Rightarrow> string \<Rightarrow> string \<Rightarrow> string" where
  "kvUrl cfg finalNamespaceId encodedKey = ''https://api.cloudflare.com/client/v4/accounts/''
     @ CLOUDFLARE_ACCOUNT_ID cfg @ ''/storage/kv/namespaces/'' @ finalNamespaceId
     @ ''/values/'' @ encodedKey"

definition key_not_found :: "string \<Rightarrow> tool_result" where
  "key_not_found key =
     \<lparr>content = [Text (''Key '' @ [CHR 0x27] @ key @ [CHR 0x27]
                        @ '' not found in Cloudflare KV namespace.'')]\<rparr>"

definition getFromCloudflareKV_try ::
  "config \<Rightarrow> 'j kv_get \<Rightarrow> (string \<Rightarrow> js_error + string) \<Rightarrow> ('j \<Rightarrow> string)
     \<Rightarrow> string \<Rightarrow> string option \<Rightarrow> js_error + tool_result" where
  "getFromCloudflareKV_try cfg get encodeURIComponent JSON_stringify key namespaceId =
     (let finalNamespaceId = js_or namespaceId (CLOUDFLARE_NAMESPACE_ID cfg)
      in case encodeURIComponent key of
           Inl error \<Rightarrow> Inl error
         | Inr encodedKey \<Rightarrow>
            (case get (kvUrl cfg finalNamespaceId encodedKey) (kv_headers cfg) of
               Inl error \<Rightarrow> Inl error
             | Inr resp \<Rightarrow>
                 if status resp = 200 then
                   (let valueText = (case data resp of StringValue v \<Rightarrow> v
                                                      | JsonValue j \<Rightarrow> JSON_stringify j)
                    in Inr \<lparr>content =
                         [Text (''Successfully retrieved value from Cloudflare KV.'' @ [CHR 0x0A]
                                @ ''Key: '' @ key @ [CHR 0x0A]
                                @ ''Value: '' @ valueText),
                          Resource \<lparr>uri = ''kv://'' @ finalNamespaceId @ ''/'' @ key,
                                    blob = None, rtext = Some valueText,
                                    mimeType = Some ''text/plain''\<rparr>]\<rparr>)
                 else if status resp = 404 then Inr (key_not_found key)
                 else Inl (request_failed (status resp) (statusText resp))))"

definition getFromCloudflareKV ::
  "config \<Rightarrow> 'j kv_get \<Rightarrow> (string \<Rightarrow> js_error + string) \<Rightarrow> ('j \<Rightarrow> string)
     \<Rightarrow> string \<Rightarrow> string option \<Rightarrow> tool_result" where
  "getFromCloudflareKV cfg get encodeURIComponent JSON_stringify key namespaceId =
     (case getFromCloudflareKV_try cfg get encodeURIComponent JSON_stringify key namespaceId of
        Inr result \<Rightarrow> result
      | Inl error \<Rightarrow>
          (if (case response error of None \<Rightarrow> False | Some r \<Rightarrow> err_status r = 404)
           then key_not_found key
           else \<lparr>content = [Text (''Error retrieving from Cloudflare KV: ''
                                   @ bestEffortMessage error)]\<rparr>))"

section \<open>Notions used to state the properties\<close>

text \<open>
  The HTTP status an awaited call ended with, whether the client resolved with the response
  or rejected with an error that carries it. A failure without a response has none.
\<close>

definition upstream_status :: "js_error + 'd http_response \<Rightarrow> nat option" where
  "upstream_status outcome =
     (case outcome of
        Inr resp \<Rightarrow> Some (status resp)
      | Inl error \<Rightarrow> map_option err_status (response error))"

text \<open>
  What the sublink loop stores when every href resolves: \<open>us\<close> are the resolved URLs and
  \<open>n\<close> counts the requests issued before.
\<close>

fun record_all ::
  "axios_get \<Rightarrow> nat \<Rightarrow> string list \<Rightarrow> (string \<times> string) list \<Rightarrow> (string \<times> string) list" where
  "record_all get n [] texts = texts"
| "record_all get n (u # us) texts =
     record_all get (Suc n) us (AList.update u (sublink_text (get n u)) texts)"

section \<open>Example environments\<close>

text \<open>
  Concrete upstreams on which the handlers are evaluated. \<open>answer3\<close> and \<open>answer2\<close> give
  every request the same outcome. \<open>example_newURL\<close> tabulates
  \<^verbatim>\<open>new URL(href, base).toString()\<close> for a root-relative href against the base
  \<^verbatim>\<open>https://example.test/\<close>, and for the href \<^verbatim>\<open>http://\<close>, which has no host: the
  constructor throws \<^verbatim>\<open>TypeError: Invalid URL\<close>. The base64 text \<^verbatim>\<open>UklGRg==\<close> encodes the
  four bytes of \<^verbatim>\<open>RIFF\<close>.
\<close>

definition example_cfg :: config where
  "example_cfg = \<lparr>CLOUDFLARE_API_KEY = ''k'', CLOUDFLARE_EMAIL = ''ops@example.test'',
     CLOUDFLARE_ACCOUNT_ID = ''acct'', CLOUDFLARE_NAMESPACE_ID = ''ns''\<rparr>"

definition answer3 :: "'o \<Rightarrow> 'a \<Rightarrow> 'b \<Rightarrow> 'c \<Rightarrow> 'o" where
  "answer3 outcome url body hs = outcome"

definition answer2 :: "'o \<Rightarrow> 'a \<Rightarrow> 'b \<Rightarrow> 'o" where
  "answer2 outcome url hs = outcome"

definition example_Buffer_from :: "string \<Rightarrow> nat list" where
  "example_Buffer_from fileData = (if fileData = ''UklGRg=='' then [82, 73, 70, 70] else [])"

definition example_encodeURIComponent :: "string \<Rightarrow> js_error + string" where
  "example_encodeURIComponent key = Inr key"

definition stub_stringify :: "crawl_result \<Rightarrow> string" where
  "stub_stringify r = ''<JSON of the crawl of '' @ main_url r @ ''>''"

definition null_stringify :: "unit \<Rightarrow> string" where
  "null_stringify j = ''null''"

definition example_newURL :: url_ctor where
  "example_newURL href base =
     (if href = ''http://'' then Inl (Error ''Invalid URL'') else Inr (base @ drop 1 href))"

definition site_two_links :: axios_get where
  "site_two_links n u =
     (if n = 0 then Inr \<lparr>body_text = ''Home'', a_hrefs = [''/a'', ''/b'']\<rparr>
      else if n = 1 then Inl (Error ''timeout of 1000ms exceeded'')
      else Inr \<lparr>body_text = ''Page B'', a_hrefs = []\<rparr>)"

definition site_seven_same :: axios_get where
  "site_seven_same n u =
     Inr \<lparr>body_text = ''Home'', a_hrefs = [''/'', ''/'', ''/'', ''/'', ''/'', ''/'', ''/'']\<rparr>"

definition site_seven_links :: axios_get where
  "site_seven_links n u =
     (if n = 0
      then Inr \<lparr>body_text = ''Home'',
                a_hrefs = [''/1'', ''/2'', ''/3'', ''/4'', ''/5'', ''/6'', ''/7'']\<rparr>
      else Inr \<lparr>body_text = ''Sub'', a_hrefs = []\<rparr>)"

definition site_bad_href :: axios_get where
  "site_bad_href n u =
     (if n = 0 then Inr \<lparr>body_text = ''Home'', a_hrefs = [''/a'', ''http://'']\<rparr>
      else Inr \<lparr>body_text = ''Page A'', a_hrefs = []\<rparr>)"

definition site_repeated_link :: axios_get where
  "site_repeated_link n u =
     (if n = 0 then Inr \<lparr>body_text = ''Home'', a_hrefs = [''/a'', ''/b'', ''/a'']\<rparr>
      else if n = 1 then Inl (Error ''timeout of 1000ms exceeded'')
      else if n = 2 then Inr \<lparr>body_text = ''Page B'', a_hrefs = []\<rparr>
      else Inr \<lparr>body_text = ''Page A'', a_hrefs = []\<rparr>)"

section \<open>Facts about the helpers\<close>

lemma str_includes_iff: "str_includes s sub \<longleftrightarrow> (\<exists>a c. s = a @ sub @ c)"
proof (induction s)
  case Nil
  then show ?case by auto
next
  case (Cons x s)
  have sw: "startsWith (x # s) sub \<longleftrightarrow> (\<exists>c. x # s = sub @ c)"
    unfolding startsWith_def by (metis append_eq_conv_conj append_take_drop_id)
  show ?case
  proof
    assume "str_includes (x # s) sub"
    then consider "startsWith (x # s) sub" | "str_includes s sub" by auto
    then show "\<exists>a c. x # s = a @ sub @ c"
    proof cases
      case 1
      then obtain c where "x # s = sub @ c" using sw by blast
      then have "x # s = [] @ sub @ c" by simp
      then show ?thesis by blast
    next
      case 2
      then obtain a c where "s = a @ sub @ c" using Cons.IH by blast
      then have "x # s = (x # a) @ sub @ c" by simp
      then show ?thesis by blast
    qed
  next
    assume "\<exists>a c. x # s = a @ sub @ c"
    then obtain a c where ac: "x # s = a @ sub @ c" by blast
    show "str_includes (x # s) sub"
    proof (cases a)
      case Nil
      then have "startsWith (x # s) sub" using ac sw by auto
      then show ?thesis by simp
    next
      case (Cons y a')
      then have "s = a' @ sub @ c" using ac by simp
      then show ?thesis using Cons.IH by auto
    qed
  qed
qed

lemma str_includes_app: "str_includes (a @ sub @ c) sub"
  by (auto simp: str_includes_iff)

lemma str_includes_Error: "str_includes (''Error'' @ c) ''Error''"
  using str_includes_app [of "[]" "''Error''" c] by simp

lemma bestEffortMessage_Error: "bestEffortMessage (Error m) = m"
  by (simp add: bestEffortMessage_def Error_def js_or_def)

lemma bestEffortMessage_cases:
  "bestEffortMessage error =
     (case response error of
        None \<Rightarrow> message error
      | Some r \<Rightarrow> (case errors0_message r of
                     None \<Rightarrow> message error
                   | Some m \<Rightarrow> if m = [] then message error else m))"
  by (simp add: bestEffortMessage_def js_or_def split: option.splits)

section \<open>The sublink loop\<close>

lemma sublink_loop_resolved:
  "map (\<lambda>h. newURL h url) hs = map Inr us \<Longrightarrow>
   sublink_loop get newURL url hs texts req = (Inr (record_all get (length req) us texts), req @ us)"
proof (induction hs arbitrary: us texts req)
  case Nil
  then show ?case by simp
next
  case (Cons h hs)
  then obtain u us' where us: "us = u # us'" and h: "newURL h url = Inr u"
    and rest: "map (\<lambda>h. newURL h url) hs = map Inr us'"
    by (cases us) auto
  show ?case using Cons.IH [OF rest] by (simp add: us h)
qed

lemma record_all_keys: "fst ` set (record_all get n us texts) = fst ` set texts \<union> set us"
  by (induction us arbitrary: n texts) (auto simp: dom_update)

lemma record_all_distinct:
  "distinct (map fst texts) \<Longrightarrow> distinct (map fst (record_all get n us texts))"
  by (induction us arbitrary: n texts) (auto simp: distinct_update)

lemma record_all_other: "k \<notin> set us \<Longrightarrow> map_of (record_all get n us texts) k = map_of texts k"
  by (induction us arbitrary: n texts) (auto simp: update_conv')

lemma record_all_entry:
  "i < length us \<Longrightarrow> \<forall>j<length us. i < j \<longrightarrow> us ! j \<noteq> us ! i \<Longrightarrow>
   map_of (record_all get n us texts) (us ! i) = Some (sublink_text (get (n + i) (us ! i)))"
proof (induction us arbitrary: n texts i)
  case Nil
  then show ?case by simp
next
  case (Cons u us)
  show ?case
  proof (cases i)
    case 0
    have "u \<notin> set us"
    proof
      assume "u \<in> set us"
      then obtain j where "j < length us" "us ! j = u" by (auto simp: in_set_conv_nth)
      with Cons.prems(2) 0 show False by (auto dest: spec [of _ "Suc j"])
    qed
    then show ?thesis using 0 by (simp add: record_all_other update_conv')
  next
    case (Suc i')
    have "\<forall>j<length us. i' < j \<longrightarrow> us ! j \<noteq> us ! i'"
      using Cons.prems(2) Suc by (auto dest: spec [of _ "Suc j" for j])
    moreover have "i' < length us" using Cons.prems(1) Suc by simp
    ultimately show ?thesis using Cons.IH [of i' "Suc n"] Suc by simp
  qed
qed

lemma scrape_try_resolved:
  assumes root: "get 0 url = Inr rootPage"
    and resolved: "map (\<lambda>h. newURL h url) (take 5 (a_hrefs rootPage)) = map Inr us"
  shows "scrape_try get newURL url =
     (Inr \<lparr>main_url = url, main_text = body_text rootPage,
           sublinks = record_all get 1 us []\<rparr>, url # us)"
  using sublink_loop_resolved [where newURL = newURL and url = url and get = get
      and texts = "[]" and req = "[url]", OF resolved] root
  by (simp add: scrape_try_def)

section \<open>The handlers, outcome by outcome\<close>

lemma post_rejected:
  "post (tts_apiUrl cfg) (tts_payload text_in lang_in) (json_headers cfg) = Inl error \<Longrightarrow>
   fetchAudioAndSave cfg post uuid text_in lang_in =
     \<lparr>content = [Text (''Error: '' @ bestEffortMessage error)]\<rparr>"
  by (simp add: fetchAudioAndSave_def fetchAudioAndSave_try_def)

lemma post_resolved_other:
  "post (tts_apiUrl cfg) (tts_payload text_in lang_in) (json_headers cfg) = Inr resp \<Longrightarrow>
   status resp \<noteq> 200 \<Longrightarrow>
   fetchAudioAndSave cfg post uuid text_in lang_in =
     \<lparr>content = [Text (''Error: Request failed: '' @ string_of_nat (status resp) @ '' - ''
                        @ statusText resp)]\<rparr>"
  by (simp add: fetchAudioAndSave_def fetchAudioAndSave_try_def request_failed_def
        bestEffortMessage_Error)

lemma summarize_rejected:
  "post (summarize_apiUrl cfg) (summarize_payload text_in) (json_headers cfg) = Inl error \<Longrightarrow>
   summarizeText cfg post text_in = \<lparr>content = [Text (''Error: '' @ bestEffortMessage error)]\<rparr>"
  by (simp add: summarizeText_def summarizeText_try_def)

lemma summarize_resolved_other:
  "post (summarize_apiUrl cfg) (summarize_payload text_in) (json_headers cfg) = Inr resp \<Longrightarrow>
   status resp \<noteq> 200 \<Longrightarrow>
   summarizeText cfg post text_in =
     \<lparr>content = [Text (''Error: Request failed: '' @ string_of_nat (status resp) @ '' - ''
                        @ statusText resp)]\<rparr>"
  by (simp add: summarizeText_def summarizeText_try_def request_failed_def
        bestEffortMessage_Error)

lemma scrape_rejected:
  "get 0 url = Inl error \<Longrightarrow>
   fst (scrapeUrlAndSublinks get newURL JSON_stringify url) =
     \<lparr>content = [Text (''Error: '' @ message error)]\<rparr>"
  by (simp add: scrapeUrlAndSublinks_def scrape_try_def)

lemma upload_rejected:
  "put (uploadUrl cfg (finalFileName uuid fileName contentType fileData))
       (Buffer_from fileData)
       (upload_headers cfg (finalContentType contentType fileData)
          (length (Buffer_from fileData))) = Inl error \<Longrightarrow>
   uploadAudioToR2 cfg put Buffer_from uuid fileData fileName contentType =
     \<lparr>content = [Text (''Error uploading to R2: '' @ bestEffortMessage error)]\<rparr>"
  by (simp add: uploadAudioToR2_def uploadAudioToR2_try_def Let_def)

lemma upload_resolved:
  "put (uploadUrl cfg (finalFileName uuid fileName contentType fileData))
       (Buffer_from fileData)
       (upload_headers cfg (finalContentType contentType fileData)
          (length (Buffer_from fileData))) = Inr resp \<Longrightarrow>
   uploadAudioToR2 cfg put Buffer_from uuid fileData fileName contentType =
     (if status resp = 200 \<or> status resp = 201 then
        \<lparr>content =
           [Text (''File successfully uploaded to R2 storage.'' @ [CHR 0x0A]
                  @ ''File: '' @ finalFileName uuid fileName contentType fileData @ [CHR 0x0A]
                  @ ''URL: '' @ R2_URL @ ''/''
                  @ finalFileName uuid fileName contentType fileData @ [CHR 0x0A]
                  @ ''Type: '' @ finalContentType contentType fileData),
            Resource \<lparr>uri = R2_URL @ ''/'' @ finalFileName uuid fileName contentType fileData,
                      blob = Some fileData, rtext = None,
                      mimeType = Some (finalContentType contentType fileData)\<rparr>]\<rparr>
      else \<lparr>content = [Text (''Error uploading to R2: Upload failed: ''
                               @ string_of_nat (status resp) @ '' - '' @ statusText resp)]\<rparr>)"
  by (simp add: uploadAudioToR2_def uploadAudioToR2_try_def Let_def bestEffortMessage_Error)

lemma kv_encode_rejected:
  "encodeURIComponent key = Inl error \<Longrightarrow>
   getFromCloudflareKV cfg get encodeURIComponent JSON_stringify key namespaceId =
     (if (case response error of None \<Rightarrow> False | Some r \<Rightarrow> err_status r = 404)
      then key_not_found key
      else \<lparr>content = [Text (''Error retrieving from Cloudflare KV: ''
                                   @ bestEffortMessage error)]\<rparr>)"
  by (simp add: getFromCloudflareKV_def getFromCloudflareKV_try_def Let_def)

lemma kv_resolved:
  assumes "encodeURIComponent key = Inr encodedKey"
    and "get (kvUrl cfg (js_or namespaceId (CLOUDFLARE_NAMESPACE_ID cfg)) encodedKey)
             (kv_headers cfg) = Inr resp"
    and "status resp \<noteq> 200"
  shows "getFromCloudflareKV cfg get encodeURIComponent JSON_stringify key namespaceId =
     (if status resp = 404 then key_not_found key
      else \<lparr>content = [Text (''Error retrieving from Cloudflare KV: '' @ ''Request failed: ''
                @ string_of_nat (status resp) @ '' - '' @ statusText resp)]\<rparr>)"
  using assms
  by (simp add: getFromCloudflareKV_def getFromCloudflareKV_try_def Let_def
        request_failed_def Error_def bestEffortMessage_def js_or_def)

lemma kv_rejected:
  assumes "encodeURIComponent key = Inr encodedKey"
    and "get (kvUrl cfg (js_or namespaceId (CLOUDFLARE_NAMESPACE_ID cfg)) encodedKey)
             (kv_headers cfg) = Inl error"
  shows "getFromCloudflareKV cfg get encodeURIComponent JSON_stringify key namespaceId =
     (if (case response error of None \<Rightarrow> False | Some r \<Rightarrow> err_status r = 404)
      then key_not_found key
      else \<lparr>content = [Text (''Error retrieving from Cloudflare KV: ''
                                   @ bestEffortMessage error)]\<rparr>)"
  using assms
  by (simp add: getFromCloudflareKV_def getFromCloudflareKV_try_def Let_def)

section \<open>The crawler\<close>

text \<open>
  Claim C1 (per-branch failure isolation), as the code has it. Let the root fetch succeed
  and let each of the first five hrefs resolve to an absolute URL, \<open>us\<close> in order. Then the
  handler returns the resource built from the crawl result \<open>r\<close>; the root's text is in
  \<open>main_text r\<close>; the keys of the links mapping are exactly the resolved sublinks, so no
  failure removes a key; and the links mapping is keyed by URL, so the entry of a URL is
  the outcome of the last request to it: for a sublink \<open>i\<close> that no later sublink repeats,
  the entry is \<^verbatim>\<open>Error fetching sublink: <message>\<close> when its fetch (request \<open>i + 1\<close> of the
  invocation) failed and the page text when it succeeded, whatever the other fetches did.
\<close>

theorem crawler_isolation:
  assumes root: "get 0 url = Inr rootPage"
    and resolved: "map (\<lambda>h. newURL h url) (take 5 (a_hrefs rootPage)) = map Inr us"
  shows "\<exists>r. fst (scrape_try get newURL url) = Inr r
           \<and> fst (scrapeUrlAndSublinks get newURL JSON_stringify url) =
               \<lparr>content = [Resource \<lparr>uri = url, blob = None,
                                       rtext = Some (JSON_stringify r), mimeType = None\<rparr>]\<rparr>
           \<and> main_text r = body_text rootPage
           \<and> fst ` set (sublinks r) = set us
           \<and> (\<forall>i<length us. (\<forall>j<length us. i < j \<longrightarrow> us ! j \<noteq> us ! i) \<longrightarrow>
                 (\<forall>error. get (Suc i) (us ! i) = Inl error \<longrightarrow>
                    map_of (sublinks r) (us ! i) =
                      Some (''Error fetching sublink: '' @ message error))
               \<and> (\<forall>subPage. get (Suc i) (us ! i) = Inr subPage \<longrightarrow>
                    map_of (sublinks r) (us ! i) = Some (body_text subPage)))"
proof -
  let ?r = "\<lparr>main_url = url, main_text = body_text rootPage,
             sublinks = record_all get 1 us []\<rparr>"
  have st: "scrape_try get newURL url = (Inr ?r, url # us)"
    by (rule scrape_try_resolved [where get = get and newURL = newURL and url = url,
          OF root resolved])
  have keys: "fst ` set (sublinks ?r) = set us"
    by (simp add: record_all_keys)
  have entry: "map_of (sublinks ?r) (us ! i) = Some (sublink_text (get (Suc i) (us ! i)))"
    if "i < length us" "\<forall>j<length us. i < j \<longrightarrow> us ! j \<noteq> us ! i" for i
    using record_all_entry [OF that, of get 1 "[]"] by simp
  have "\<forall>i<length us. (\<forall>j<length us. i < j \<longrightarrow> us ! j \<noteq> us ! i) \<longrightarrow>
                 (\<forall>error. get (Suc i) (us ! i) = Inl error \<longrightarrow>
                    map_of (sublinks ?r) (us ! i) =
                      Some (''Error fetching sublink: '' @ message error))
               \<and> (\<forall>subPage. get (Suc i) (us ! i) = Inr subPage \<longrightarrow>
                    map_of (sublinks ?r) (us ! i) = Some (body_text subPage))"
    using entry by (simp add: sublink_text_def)
  moreover have "fst (scrapeUrlAndSublinks get newURL JSON_stringify url) =
               \<lparr>content = [Resource \<lparr>uri = url, blob = None,
                                       rtext = Some (JSON_stringify ?r), mimeType = None\<rparr>]\<rparr>"
    by (simp add: scrapeUrlAndSublinks_def st)
  moreover have "fst (scrape_try get newURL url) = Inr ?r" by (simp add: st)
  moreover have "main_text ?r = body_text rootPage" by simp
  ultimately show ?thesis using keys by blast
qed

text \<open>
  The property at a page with two links, where the first sublink times out and the second
  answers.
\<close>

theorem crawler_isolation_witness:
  "site_two_links 0 ''https://example.test/'' =
     Inr \<lparr>body_text = ''Home'', a_hrefs = [''/a'', ''/b'']\<rparr>
   \<and> site_two_links 1 ''https://example.test/a'' = Inl (Error ''timeout of 1000ms exceeded'')
   \<and> (\<exists>r. fst (scrape_try site_two_links example_newURL ''https://example.test/'') = Inr r
          \<and> main_text r = ''Home''
          \<and> fst ` set (sublinks r) = {''https://example.test/a'', ''https://example.test/b''}
          \<and> map_of (sublinks r) ''https://example.test/a'' =
                Some ''Error fetching sublink: timeout of 1000ms exceeded''
          \<and> map_of (sublinks r) ''https://example.test/b'' = Some ''Page B'')"
proof -
  let ?page = "\<lparr>body_text = ''Home'', a_hrefs = [''/a'', ''/b'']\<rparr>"
  let ?us = "[''https://example.test/a'', ''https://example.test/b'']"
  have root: "site_two_links 0 ''https://example.test/'' = Inr ?page"
    by (simp add: site_two_links_def)
  have resolved: "map (\<lambda>h. example_newURL h ''https://example.test/'') (take 5 (a_hrefs ?page))
      = map Inr ?us"
    by (simp add: example_newURL_def)
  have a: "site_two_links 1 ''https://example.test/a'' = Inl (Error ''timeout of 1000ms exceeded'')"
    by (simp add: site_two_links_def)
  have b: "site_two_links 2 ''https://example.test/b'' = Inr \<lparr>body_text = ''Page B'', a_hrefs = []\<rparr>"
    by (simp add: site_two_links_def)
  obtain r where r: "fst (scrape_try site_two_links example_newURL ''https://example.test/'') = Inr r"
    "main_text r = body_text ?page" "fst ` set (sublinks r) = set ?us"
    and entries: "\<forall>i<length ?us. (\<forall>j<length ?us. i < j \<longrightarrow> ?us ! j \<noteq> ?us ! i) \<longrightarrow>
                 (\<forall>error. site_two_links (Suc i) (?us ! i) = Inl error \<longrightarrow>
                    map_of (sublinks r) (?us ! i) =
                      Some (''Error fetching sublink: '' @ message error))
               \<and> (\<forall>subPage. site_two_links (Suc i) (?us ! i) = Inr subPage \<longrightarrow>
                    map_of (sublinks r) (?us ! i) = Some (body_text subPage))"
    using crawler_isolation [where get = site_two_links and newURL = example_newURL
        and url = "''https://example.test/''" and rootPage = ?page and us = ?us
        and JSON_stringify = stub_stringify, OF root resolved]
    by blast
  have ea: "map_of (sublinks r) ''https://example.test/a'' =
                Some ''Error fetching sublink: timeout of 1000ms exceeded''"
    using entries [rule_format, of 0] a by (simp add: less_Suc_eq Error_def)
  have eb: "map_of (sublinks r) ''https://example.test/b'' = Some ''Page B''"
    using entries [rule_format, of 1] b by (simp add: numeral_2_eq_2)
  show ?thesis using root a r ea eb by auto
qed

text \<open>
  Claim C1 as stated fails where two anchors share a target: on a page with the anchors
  \<^verbatim>\<open>/a\<close>, \<^verbatim>\<open>/b\<close>, \<^verbatim>\<open>/a\<close> whose first sublink fetch times out and whose third succeeds,
  the later write replaces the error description under the same key, and the links mapping
  holds no entry for the failed fetch.
\<close>

theorem repeated_link_loses_error_counterexample:
  "site_repeated_link 1 ''https://example.test/a'' = Inl (Error ''timeout of 1000ms exceeded'')
   \<and> scrape_try site_repeated_link example_newURL ''https://example.test/'' =
     (Inr \<lparr>main_url = ''https://example.test/'', main_text = ''Home'',
           sublinks = [(''https://example.test/a'', ''Page A''),
                       (''https://example.test/b'', ''Page B'')]\<rparr>,
      [''https://example.test/'', ''https://example.test/a'', ''https://example.test/b'',
       ''https://example.test/a''])"
  by (simp add: scrape_try_def site_repeated_link_def example_newURL_def sublink_text_def)

text \<open>
  Claim C2 (the call fails only if the root fetch fails), evaluated at a root page whose
  fetch succeeds and whose second anchor is \<^verbatim>\<open><a href="http://">\<close>. The constructor
  \<^verbatim>\<open>new URL\<close> is called outside the inner \<^verbatim>\<open>try\<close>, so its \<^verbatim>\<open>TypeError\<close> reaches the outer
  \<^verbatim>\<open>catch\<close>: the handler returns the error text and drops the root's text and the entry
  already stored for the first sublink.
\<close>

theorem unresolvable_href_aborts_crawl:
  "site_bad_href 0 ''https://example.test/'' =
     Inr \<lparr>body_text = ''Home'', a_hrefs = [''/a'', ''http://'']\<rparr>
   \<and> scrapeUrlAndSublinks site_bad_href example_newURL stub_stringify ''https://example.test/'' =
     (\<lparr>content = [Text ''Error: Invalid URL'']\<rparr>,
      [''https://example.test/'', ''https://example.test/a''])"
  by (simp add: scrapeUrlAndSublinks_def scrape_try_def site_bad_href_def example_newURL_def
        sublink_text_def Error_def)

text \<open>
  Claim C3 (fan-out bound), as the code has it. Let the root fetch succeed on a page with
  \<open>K\<close> anchors and let each of the first five hrefs resolve, to \<open>us\<close>. The handler then requests
  the root and after it exactly the \<open>min K 5\<close> resolved sublinks, in document order. The keys
  of the links mapping are the distinct URLs among them: there are \<open>card (set us)\<close> keys, at
  most five, and exactly \<open>min K 5\<close> when the resolved URLs are pairwise different.
\<close>

theorem crawler_fan_out:
  assumes root: "get 0 url = Inr rootPage"
    and resolved: "map (\<lambda>h. newURL h url) (take 5 (a_hrefs rootPage)) = map Inr us"
  shows "snd (scrapeUrlAndSublinks get newURL JSON_stringify url) = url # us
       \<and> length us = min (length (a_hrefs rootPage)) 5
       \<and> (\<exists>r. fst (scrape_try get newURL url) = Inr r
             \<and> fst ` set (sublinks r) = set us
             \<and> distinct (map fst (sublinks r))
             \<and> length (sublinks r) = card (set us)
             \<and> length (sublinks r) \<le> 5
             \<and> (distinct us \<longrightarrow> length (sublinks r) = min (length (a_hrefs rootPage)) 5))"
proof -
  let ?r = "\<lparr>main_url = url, main_text = body_text rootPage,
             sublinks = record_all get 1 us []\<rparr>"
  have st: "scrape_try get newURL url = (Inr ?r, url # us)"
    by (rule scrape_try_resolved [where get = get and newURL = newURL and url = url,
          OF root resolved])
  have len: "length us = min (length (a_hrefs rootPage)) 5"
    using arg_cong [OF resolved, of length] by simp
  have keys: "fst ` set (sublinks ?r) = set us"
    by (simp add: record_all_keys)
  have dist: "distinct (map fst (sublinks ?r))"
    by (simp add: record_all_distinct)
  have "length (sublinks ?r) = card (set (map fst (sublinks ?r)))"
    using distinct_card [OF dist] by simp
  then have card: "length (sublinks ?r) = card (set us)"
    using keys by simp
  have le5: "length (sublinks ?r) \<le> 5"
    using card card_length [of us] len by simp
  have full: "distinct us \<longrightarrow> length (sublinks ?r) = min (length (a_hrefs rootPage)) 5"
    using card len by (simp add: distinct_card)
  have req: "snd (scrapeUrlAndSublinks get newURL JSON_stringify url) = url # us"
    by (simp add: scrapeUrlAndSublinks_def st)
  have "fst (scrape_try get newURL url) = Inr ?r" by (simp add: st)
  then show ?thesis using req len keys dist card le5 full by blast
qed

text \<open>
  The bound at a page with seven anchors to seven addresses: six requests, five keys.
\<close>

theorem crawler_fan_out_witness:
  "site_seven_links 0 ''https://example.test/'' =
     Inr \<lparr>body_text = ''Home'',
          a_hrefs = [''/1'', ''/2'', ''/3'', ''/4'', ''/5'', ''/6'', ''/7'']\<rparr>
   \<and> snd (scrapeUrlAndSublinks site_seven_links example_newURL stub_stringify
            ''https://example.test/'') =
       [''https://example.test/'', ''https://example.test/1'', ''https://example.test/2'',
        ''https://example.test/3'', ''https://example.test/4'', ''https://example.test/5'']
   \<and> (\<exists>r. fst (scrape_try site_seven_links example_newURL ''https://example.test/'') = Inr r
          \<and> length (sublinks r) = 5)"
proof -
  let ?page = "\<lparr>body_text = ''Home'',
          a_hrefs = [''/1'', ''/2'', ''/3'', ''/4'', ''/5'', ''/6'', ''/7'']\<rparr>"
  let ?us = "[''https://example.test/1'', ''https://example.test/2'',
        ''https://example.test/3'', ''https://example.test/4'', ''https://example.test/5'']"
  have root: "site_seven_links 0 ''https://example.test/'' = Inr ?page"
    by (simp add: site_seven_links_def)
  have resolved: "map (\<lambda>h. example_newURL h ''https://example.test/'') (take 5 (a_hrefs ?page))
      = map Inr ?us"
    by (simp add: example_newURL_def)
  have d: "distinct ?us" by simp
  note t = crawler_fan_out [where get = site_seven_links and newURL = example_newURL
        and url = "''https://example.test/''" and rootPage = ?page and us = ?us
        and JSON_stringify = stub_stringify, OF root resolved]
  have req: "snd (scrapeUrlAndSublinks site_seven_links example_newURL stub_stringify
            ''https://example.test/'') = ''https://example.test/'' # ?us"
    using t by (rule conjunct1)
  obtain r where r: "fst (scrape_try site_seven_links example_newURL ''https://example.test/'') = Inr r"
    and full: "distinct ?us \<longrightarrow> length (sublinks r) = min (length (a_hrefs ?page)) 5"
    using t by blast
  have "length (sublinks r) = min (length (a_hrefs ?page)) 5"
    using full d by (rule mp)
  then have "length (sublinks r) = 5" by simp
  with r have ex: "\<exists>r. fst (scrape_try site_seven_links example_newURL ''https://example.test/'') = Inr r
          \<and> length (sublinks r) = 5"
    by blast
  from root req ex show ?thesis by simp
qed

text \<open>
  Claim C3 as stated fails where anchors share a target: a page with seven anchors, all to
  \<^verbatim>\<open>/\<close>, is fetched five more times and the links mapping has one key, not five.
\<close>

theorem seven_anchors_one_key_counterexample:
  "scrape_try site_seven_same example_newURL ''https://example.test/'' =
     (Inr \<lparr>main_url = ''https://example.test/'', main_text = ''Home'',
           sublinks = [(''https://example.test/'', ''Home'')]\<rparr>,
      [''https://example.test/'', ''https://example.test/'', ''https://example.test/'',
       ''https://example.test/'', ''https://example.test/'', ''https://example.test/''])"
  by (simp add: scrape_try_def site_seven_same_def example_newURL_def sublink_text_def)

section \<open>The key-value lookup\<close>

text \<open>
  Claim C4 (not found is told apart). Let the key be encoded and the read end with
  \<open>outcome\<close>. With status 404, resolved or rejected, the result is the single text
  \<^verbatim>\<open>Key '<key>' not found in Cloudflare KV namespace.\<close>, which includes \<^verbatim>\<open>not found\<close>. With any
  status other than 200 and 404 the result is a single text that starts with
  \<^verbatim>\<open>Error retrieving from Cloudflare KV: \<close>, so it includes \<^verbatim>\<open>Error\<close>, and it is not the
  not-found result of any key.
\<close>

theorem kv_not_found_distinguished:
  assumes enc: "encodeURIComponent key = Inr encodedKey"
    and out: "get (kvUrl cfg (js_or namespaceId (CLOUDFLARE_NAMESPACE_ID cfg)) encodedKey)
                  (kv_headers cfg) = outcome"
  shows "(upstream_status outcome = Some 404 \<longrightarrow>
            getFromCloudflareKV cfg get encodeURIComponent JSON_stringify key namespaceId =
              \<lparr>content = [Text (''Key '' @ [CHR 0x27] @ key @ [CHR 0x27]
                                  @ '' not found in Cloudflare KV namespace.'')]\<rparr>)
       \<and> (\<forall>s. upstream_status outcome = Some s \<and> s \<noteq> 200 \<and> s \<noteq> 404 \<longrightarrow>
            (\<exists>m. getFromCloudflareKV cfg get encodeURIComponent JSON_stringify key namespaceId =
                   \<lparr>content = [Text (''Error retrieving from Cloudflare KV: '' @ m)]\<rparr>
                 \<and> str_includes (''Error retrieving from Cloudflare KV: '' @ m) ''Error'')
            \<and> (\<forall>k. getFromCloudflareKV cfg get encodeURIComponent JSON_stringify key namespaceId
                     \<noteq> key_not_found k))
       \<and> str_includes (''Key '' @ [CHR 0x27] @ key @ [CHR 0x27]
                          @ '' not found in Cloudflare KV namespace.'') ''not found''
       \<and> key_not_found ''missing-key'' =
            \<lparr>content = [Text ''Key 'missing-key' not found in Cloudflare KV namespace.'']\<rparr>"
proof -
  let ?res = "getFromCloudflareKV cfg get encodeURIComponent JSON_stringify key namespaceId"
  have nf: "upstream_status outcome = Some 404 \<Longrightarrow> ?res = key_not_found key"
  proof (cases outcome)
    case (Inl error)
    assume "upstream_status outcome = Some 404"
    with Inl have "case response error of None \<Rightarrow> False | Some r \<Rightarrow> err_status r = 404"
      by (auto simp: upstream_status_def split: option.splits)
    then show ?thesis using kv_rejected [where get = get and encodeURIComponent = encodeURIComponent, OF enc out [unfolded Inl]] by simp
  next
    case (Inr resp)
    assume "upstream_status outcome = Some 404"
    with Inr have "status resp = 404" by (simp add: upstream_status_def)
    then show ?thesis using kv_resolved [where get = get and encodeURIComponent = encodeURIComponent, OF enc out [unfolded Inr]] by simp
  qed
  have other: "\<exists>m. ?res = \<lparr>content = [Text (''Error retrieving from Cloudflare KV: '' @ m)]\<rparr>"
    if s: "upstream_status outcome = Some s" "s \<noteq> 200" "s \<noteq> 404" for s
  proof (cases outcome)
    case (Inl error)
    with s have "\<not> (case response error of None \<Rightarrow> False | Some r \<Rightarrow> err_status r = 404)"
      by (auto simp: upstream_status_def split: option.splits)
    then show ?thesis using kv_rejected [where get = get and encodeURIComponent = encodeURIComponent, OF enc out [unfolded Inl]] by simp
  next
    case (Inr resp)
    with s have "status resp \<noteq> 200" "status resp \<noteq> 404" by (simp_all add: upstream_status_def)
    then show ?thesis using kv_resolved [where get = get and encodeURIComponent = encodeURIComponent, OF enc out [unfolded Inr]] by simp
  qed
  have inc: "str_includes (''Error retrieving from Cloudflare KV: '' @ m) ''Error''" for m
    using str_includes_Error [of "'' retrieving from Cloudflare KV: '' @ m"] by simp
  have ne: "\<lparr>content = [Text (''Error retrieving from Cloudflare KV: '' @ m)]\<rparr> \<noteq> key_not_found k"
    for m k
    by (simp add: key_not_found_def)
  have nfinc: "str_includes (''Key '' @ [CHR 0x27] @ key @ [CHR 0x27]
                          @ '' not found in Cloudflare KV namespace.'') ''not found''"
    using str_includes_app [of "''Key '' @ [CHR 0x27] @ key @ [CHR 0x27] @ '' ''" "''not found''"
        "'' in Cloudflare KV namespace.''"]
    by simp
  have lit: "key_not_found ''missing-key'' =
            \<lparr>content = [Text ''Key 'missing-key' not found in Cloudflare KV namespace.'']\<rparr>"
    by (simp add: key_not_found_def)
  have c1: "upstream_status outcome = Some 404 \<longrightarrow> ?res =
              \<lparr>content = [Text (''Key '' @ [CHR 0x27] @ key @ [CHR 0x27]
                                  @ '' not found in Cloudflare KV namespace.'')]\<rparr>"
    using nf by (simp add: key_not_found_def)
  have c2: "\<forall>s. upstream_status outcome = Some s \<and> s \<noteq> 200 \<and> s \<noteq> 404 \<longrightarrow>
            (\<exists>m. ?res = \<lparr>content = [Text (''Error retrieving from Cloudflare KV: '' @ m)]\<rparr>
                 \<and> str_includes (''Error retrieving from Cloudflare KV: '' @ m) ''Error'')
            \<and> (\<forall>k. ?res \<noteq> key_not_found k)"
  proof (intro allI impI)
    fix s assume "upstream_status outcome = Some s \<and> s \<noteq> 200 \<and> s \<noteq> 404"
    then obtain m where m: "?res = \<lparr>content = [Text (''Error retrieving from Cloudflare KV: '' @ m)]\<rparr>"
      using other by blast
    show "(\<exists>m. ?res = \<lparr>content = [Text (''Error retrieving from Cloudflare KV: '' @ m)]\<rparr>
                 \<and> str_includes (''Error retrieving from Cloudflare KV: '' @ m) ''Error'')
            \<and> (\<forall>k. ?res \<noteq> key_not_found k)"
      using m inc [of m] ne [of m] by metis
  qed
  show ?thesis using c1 c2 nfinc lit by blast
qed

text \<open>
  The lookup of \<^verbatim>\<open>missing-key\<close> against an upstream that answers 404, and against one that
  answers 500.
\<close>

theorem kv_not_found_distinguished_witness:
  "getFromCloudflareKV example_cfg
     (answer2 (Inl \<lparr>message = ''Request failed with status code 404'',
                    response = Some \<lparr>err_status = 404, errors0_message = None\<rparr>\<rparr>))
     example_encodeURIComponent null_stringify ''missing-key'' None =
     \<lparr>content = [Text ''Key 'missing-key' not found in Cloudflare KV namespace.'']\<rparr>
   \<and> (\<exists>m. getFromCloudflareKV example_cfg
          (answer2 (Inl \<lparr>message = ''Request failed with status code 500'',
                         response = Some \<lparr>err_status = 500, errors0_message = None\<rparr>\<rparr>))
          example_encodeURIComponent null_stringify ''missing-key'' None =
          \<lparr>content = [Text (''Error retrieving from Cloudflare KV: '' @ m)]\<rparr>)"
proof -
  let ?e404 = "\<lparr>message = ''Request failed with status code 404'',
                response = Some \<lparr>err_status = 404, errors0_message = None\<rparr>\<rparr>"
  let ?e500 = "\<lparr>message = ''Request failed with status code 500'',
                response = Some \<lparr>err_status = 500, errors0_message = None\<rparr>\<rparr>"
  have enc: "example_encodeURIComponent ''missing-key'' = Inr ''missing-key''"
    by (simp add: example_encodeURIComponent_def)
  have o404: "answer2 (Inl ?e404 :: js_error + unit kv_value http_response)
      (kvUrl example_cfg (js_or None (CLOUDFLARE_NAMESPACE_ID example_cfg)) ''missing-key'')
      (kv_headers example_cfg) = Inl ?e404"
    by (simp add: answer2_def)
  have o500: "answer2 (Inl ?e500 :: js_error + unit kv_value http_response)
      (kvUrl example_cfg (js_or None (CLOUDFLARE_NAMESPACE_ID example_cfg)) ''missing-key'')
      (kv_headers example_cfg) = Inl ?e500"
    by (simp add: answer2_def)
  have s404: "upstream_status (Inl ?e404 :: js_error + unit kv_value http_response) = Some 404"
    by (simp add: upstream_status_def)
  have s500: "upstream_status (Inl ?e500 :: js_error + unit kv_value http_response) = Some 500
      \<and> (500::nat) \<noteq> 200 \<and> (500::nat) \<noteq> 404"
    by (simp add: upstream_status_def)
  note t404 = kv_not_found_distinguished [where encodeURIComponent = example_encodeURIComponent
        and get = "answer2 (Inl ?e404)" and JSON_stringify = null_stringify, OF enc o404]
  note t500 = kv_not_found_distinguished [where encodeURIComponent = example_encodeURIComponent
        and get = "answer2 (Inl ?e500)" and JSON_stringify = null_stringify, OF enc o500]
  have a: "getFromCloudflareKV example_cfg (answer2 (Inl ?e404))
     example_encodeURIComponent null_stringify ''missing-key'' None =
     \<lparr>content = [Text (''Key '' @ [CHR 0x27] @ ''missing-key'' @ [CHR 0x27]
                                  @ '' not found in Cloudflare KV namespace.'')]\<rparr>"
    using t404 [THEN conjunct1] s404 by (rule mp)
  have b: "\<exists>m. getFromCloudflareKV example_cfg (answer2 (Inl ?e500))
          example_encodeURIComponent null_stringify ''missing-key'' None =
          \<lparr>content = [Text (''Error retrieving from Cloudflare KV: '' @ m)]\<rparr>"
    using t500 [THEN conjunct2, THEN conjunct1, THEN spec, of 500] s500 by blast
  from a have a': "getFromCloudflareKV example_cfg (answer2 (Inl ?e404))
     example_encodeURIComponent null_stringify ''missing-key'' None =
     \<lparr>content = [Text ''Key 'missing-key' not found in Cloudflare KV namespace.'']\<rparr>"
    by simp
  from a' b show ?thesis by (rule conjI)
qed

section \<open>Failures at the tool boundary\<close>

text \<open>
  Claim C6 (handler failures are wrapped), as the code has it. When the awaited call of a
  handler throws \<open>error\<close>, the handler returns one text item. For \<^verbatim>\<open>fetchAudioAndSave\<close> and
  \<^verbatim>\<open>summarizeText\<close> it is \<^verbatim>\<open>Error: \<close> followed by the best-effort message; for
  \<^verbatim>\<open>scrapeUrlAndSublinks\<close> it is \<^verbatim>\<open>Error: \<close> followed by \<^verbatim>\<open>error.message\<close>, with no look at a
  provider message; for \<^verbatim>\<open>uploadAudioToR2\<close> the prefix is \<^verbatim>\<open>Error uploading to R2: \<close>; for
  \<^verbatim>\<open>getFromCloudflareKV\<close> the prefix is \<^verbatim>\<open>Error retrieving from Cloudflare KV: \<close>, unless the
  error carries status 404, which gives the not-found text. The best-effort message is the
  provider's \<^verbatim>\<open>errors[0].message\<close> when the error carries a non-empty one, and
  \<^verbatim>\<open>error.message\<close> otherwise.
\<close>

theorem handler_failure_wrapping:
  "(post (tts_apiUrl cfg) (tts_payload text_in lang_in) (json_headers cfg) = Inl error \<longrightarrow>
      fetchAudioAndSave cfg post uuid text_in lang_in =
        \<lparr>content = [Text (''Error: '' @ bestEffortMessage error)]\<rparr>)
   \<and> (post (summarize_apiUrl cfg) (summarize_payload text_in') (json_headers cfg) = Inl error \<longrightarrow>
      summarizeText cfg post text_in' =
        \<lparr>content = [Text (''Error: '' @ bestEffortMessage error)]\<rparr>)
   \<and> (get 0 url = Inl error \<longrightarrow>
      fst (scrapeUrlAndSublinks get newURL JSON_stringify url) =
        \<lparr>content = [Text (''Error: '' @ message error)]\<rparr>)
   \<and> (put (uploadUrl cfg (finalFileName uuid fileName contentType fileData))
          (Buffer_from fileData)
          (upload_headers cfg (finalContentType contentType fileData)
             (length (Buffer_from fileData))) = Inl error \<longrightarrow>
      uploadAudioToR2 cfg put Buffer_from uuid fileData fileName contentType =
        \<lparr>content = [Text (''Error uploading to R2: '' @ bestEffortMessage error)]\<rparr>)
   \<and> (encodeURIComponent key = Inr encodedKey
      \<and> kv (kvUrl cfg (js_or namespaceId (CLOUDFLARE_NAMESPACE_ID cfg)) encodedKey)
            (kv_headers cfg) = Inl error \<longrightarrow>
      getFromCloudflareKV cfg kv encodeURIComponent stringify key namespaceId =
        (if (case response error of None \<Rightarrow> False | Some r \<Rightarrow> err_status r = 404)
         then \<lparr>content = [Text (''Key '' @ [CHR 0x27] @ key @ [CHR 0x27]
                                   @ '' not found in Cloudflare KV namespace.'')]\<rparr>
         else \<lparr>content = [Text (''Error retrieving from Cloudflare KV: ''
                                   @ bestEffortMessage error)]\<rparr>))
   \<and> bestEffortMessage error =
       (case response error of
          None \<Rightarrow> message error
        | Some r \<Rightarrow> (case errors0_message r of
                       None \<Rightarrow> message error
                     | Some m \<Rightarrow> if m = [] then message error else m))"
proof -
  have kv: "encodeURIComponent key = Inr encodedKey
      \<and> kv (kvUrl cfg (js_or namespaceId (CLOUDFLARE_NAMESPACE_ID cfg)) encodedKey)
            (kv_headers cfg) = Inl error \<longrightarrow>
      getFromCloudflareKV cfg kv encodeURIComponent stringify key namespaceId =
        (if (case response error of None \<Rightarrow> False | Some r \<Rightarrow> err_status r = 404)
         then \<lparr>content = [Text (''Key '' @ [CHR 0x27] @ key @ [CHR 0x27]
                                   @ '' not found in Cloudflare KV namespace.'')]\<rparr>
         else \<lparr>content = [Text (''Error retrieving from Cloudflare KV: ''
                                   @ bestEffortMessage error)]\<rparr>)"
    using kv_rejected [where get = kv and encodeURIComponent = encodeURIComponent
        and key = key and encodedKey = encodedKey and cfg = cfg and namespaceId = namespaceId
        and error = error and JSON_stringify = stringify]
    by (simp add: key_not_found_def)
  show ?thesis
    using post_rejected [of post cfg text_in lang_in error uuid]
      summarize_rejected [of post cfg text_in' error]
      scrape_rejected [of get url error newURL JSON_stringify]
      upload_rejected [of put cfg uuid fileName contentType fileData Buffer_from error]
      kv bestEffortMessage_cases [of error]
    by blast
qed

text \<open>
  The five handlers against an upstream that rejects with status 400 and the provider
  message \<^verbatim>\<open>Invalid input\<close>.
\<close>

theorem handler_failure_wrapping_witness:
  "fetchAudioAndSave example_cfg
     (answer3 (Inl \<lparr>message = ''Request failed with status code 400'',
                    response = Some \<lparr>err_status = 400,
                                     errors0_message = Some ''Invalid input''\<rparr>\<rparr>))
     ''1b9d6bcd'' (Some ''hello'') None =
     \<lparr>content = [Text ''Error: Invalid input'']\<rparr>
   \<and> fst (scrapeUrlAndSublinks
            (answer2 (Inl \<lparr>message = ''Request failed with status code 400'',
                           response = Some \<lparr>err_status = 400,
                                            errors0_message = Some ''Invalid input''\<rparr>\<rparr>))
            example_newURL stub_stringify ''https://example.test/'') =
       \<lparr>content = [Text ''Error: Request failed with status code 400'']\<rparr>
   \<and> uploadAudioToR2 example_cfg
       (answer3 (Inl \<lparr>message = ''Request failed with status code 400'',
                      response = Some \<lparr>err_status = 400,
                                       errors0_message = Some ''Invalid input''\<rparr>\<rparr>))
       example_Buffer_from ''1b9d6bcd'' ''UklGRg=='' None None =
       \<lparr>content = [Text ''Error uploading to R2: Invalid input'']\<rparr>
   \<and> getFromCloudflareKV example_cfg
       (answer2 (Inl \<lparr>message = ''Request failed with status code 400'',
                      response = Some \<lparr>err_status = 400,
                                       errors0_message = Some ''Invalid input''\<rparr>\<rparr>))
       example_encodeURIComponent null_stringify ''missing-key'' None =
       \<lparr>content = [Text ''Error retrieving from Cloudflare KV: Invalid input'']\<rparr>"
  using handler_failure_wrapping [where cfg = example_cfg
      and error = "\<lparr>message = ''Request failed with status code 400'',
                     response = Some \<lparr>err_status = 400,
                                      errors0_message = Some ''Invalid input''\<rparr>\<rparr>"
      and post = "answer3 (Inl \<lparr>message = ''Request failed with status code 400'',
                     response = Some \<lparr>err_status = 400,
                                      errors0_message = Some ''Invalid input''\<rparr>\<rparr>)"
      and put = "answer3 (Inl \<lparr>message = ''Request failed with status code 400'',
                     response = Some \<lparr>err_status = 400,
                                      errors0_message = Some ''Invalid input''\<rparr>\<rparr>)"
      and get = "answer2 (Inl \<lparr>message = ''Request failed with status code 400'',
                     response = Some \<lparr>err_status = 400,
                                      errors0_message = Some ''Invalid input''\<rparr>\<rparr>)"
      and kv = "answer2 (Inl \<lparr>message = ''Request failed with status code 400'',
                     response = Some \<lparr>err_status = 400,
                                      errors0_message = Some ''Invalid input''\<rparr>\<rparr>)"
      and text_in = "Some ''hello''" and lang_in = None and uuid = "''1b9d6bcd''"
      and url = "''https://example.test/''" and newURL = example_newURL
      and JSON_stringify = stub_stringify and Buffer_from = example_Buffer_from
      and fileData = "''UklGRg==''" and fileName = None and contentType = None
      and encodeURIComponent = example_encodeURIComponent and key = "''missing-key''"
      and encodedKey = "''missing-key''" and namespaceId = None and stringify = null_stringify]
  by (simp add: answer3_def answer2_def example_encodeURIComponent_def)

text \<open>
  Claim C6 as stated fails for the upload: on a network error its text is
  \<^verbatim>\<open>Error uploading to R2: Network Error\<close>, which does not start with \<^verbatim>\<open>Error: \<close>.
\<close>

theorem upload_error_prefix_counterexample:
  "uploadAudioToR2 example_cfg (answer3 (Inl (Error ''Network Error'')))
     example_Buffer_from ''1b9d6bcd'' ''UklGRg=='' None None =
     \<lparr>content = [Text ''Error uploading to R2: Network Error'']\<rparr>
   \<and> \<not> startsWith ''Error uploading to R2: Network Error'' ''Error: ''"
  by (simp add: uploadAudioToR2_def uploadAudioToR2_try_def Let_def answer3_def
        bestEffortMessage_Error startsWith_def)

section \<open>Classification of upstream statuses\<close>

text \<open>
  Claim C7 (which statuses are a success), as the code has it. A response that the client
  resolves with a status other than 200 makes \<^verbatim>\<open>fetchAudioAndSave\<close> and \<^verbatim>\<open>summarizeText\<close>
  return \<^verbatim>\<open>Error: Request failed: <status> - <statusText>\<close>, and makes \<^verbatim>\<open>getFromCloudflareKV\<close>
  return the not-found text for 404 and the same failure text, after its own prefix, for
  every other status. \<^verbatim>\<open>uploadAudioToR2\<close> takes 200 and 201 as success and returns the
  resource; every other status gives \<^verbatim>\<open>Error uploading to R2: Upload failed: <status> - <statusText>\<close>.
\<close>

theorem upstream_success_classification:
  "(post (tts_apiUrl cfg) (tts_payload text_in lang_in) (json_headers cfg) = Inr resp
      \<and> status resp \<noteq> 200 \<longrightarrow>
      fetchAudioAndSave cfg post uuid text_in lang_in =
        \<lparr>content = [Text (''Error: Request failed: '' @ string_of_nat (status resp) @ '' - ''
                           @ statusText resp)]\<rparr>)
   \<and> (post (summarize_apiUrl cfg) (summarize_payload text_in') (json_headers cfg) = Inr resp
      \<and> status resp \<noteq> 200 \<longrightarrow>
      summarizeText cfg post text_in' =
        \<lparr>content = [Text (''Error: Request failed: '' @ string_of_nat (status resp) @ '' - ''
                           @ statusText resp)]\<rparr>)
   \<and> (encodeURIComponent key = Inr encodedKey
      \<and> kv (kvUrl cfg (js_or namespaceId (CLOUDFLARE_NAMESPACE_ID cfg)) encodedKey)
            (kv_headers cfg) = Inr kresp
      \<and> status kresp \<noteq> 200 \<longrightarrow>
      getFromCloudflareKV cfg kv encodeURIComponent stringify key namespaceId =
        (if status kresp = 404 then key_not_found key
         else \<lparr>content = [Text (''Error retrieving from Cloudflare KV: Request failed: ''
                  @ string_of_nat (status kresp) @ '' - '' @ statusText kresp)]\<rparr>))
   \<and> (put (uploadUrl cfg (finalFileName uuid fileName contentType fileData))
          (Buffer_from fileData)
          (upload_headers cfg (finalContentType contentType fileData)
             (length (Buffer_from fileData))) = Inr presp \<longrightarrow>
      (if status presp = 200 \<or> status presp = 201
       then \<exists>t. uploadAudioToR2 cfg put Buffer_from uuid fileData fileName contentType =
              \<lparr>content =
                 [Text t,
                  Resource \<lparr>uri = R2_URL @ ''/''
                                   @ finalFileName uuid fileName contentType fileData,
                            blob = Some fileData, rtext = None,
                            mimeType = Some (finalContentType contentType fileData)\<rparr>]\<rparr>
       else uploadAudioToR2 cfg put Buffer_from uuid fileData fileName contentType =
              \<lparr>content = [Text (''Error uploading to R2: Upload failed: ''
                  @ string_of_nat (status presp) @ '' - '' @ statusText presp)]\<rparr>))"
proof -
  have kv: "encodeURIComponent key = Inr encodedKey
      \<and> kv (kvUrl cfg (js_or namespaceId (CLOUDFLARE_NAMESPACE_ID cfg)) encodedKey)
            (kv_headers cfg) = Inr kresp
      \<and> status kresp \<noteq> 200 \<longrightarrow>
      getFromCloudflareKV cfg kv encodeURIComponent stringify key namespaceId =
        (if status kresp = 404 then key_not_found key
         else \<lparr>content = [Text (''Error retrieving from Cloudflare KV: Request failed: ''
                  @ string_of_nat (status kresp) @ '' - '' @ statusText kresp)]\<rparr>)"
    using kv_resolved [where get = kv and encodeURIComponent = encodeURIComponent
        and key = key and encodedKey = encodedKey and cfg = cfg and namespaceId = namespaceId
        and resp = kresp and JSON_stringify = stringify]
    by simp
  have up: "put (uploadUrl cfg (finalFileName uuid fileName contentType fileData))
          (Buffer_from fileData)
          (upload_headers cfg (finalContentType contentType fileData)
             (length (Buffer_from fileData))) = Inr presp \<longrightarrow>
      (if status presp = 200 \<or> status presp = 201
       then \<exists>t. uploadAudioToR2 cfg put Buffer_from uuid fileData fileName contentType =
              \<lparr>content =
                 [Text t,
                  Resource \<lparr>uri = R2_URL @ ''/''
                                   @ finalFileName uuid fileName contentType fileData,
                            blob = Some fileData, rtext = None,
                            mimeType = Some (finalContentType contentType fileData)\<rparr>]\<rparr>
       else uploadAudioToR2 cfg put Buffer_from uuid fileData fileName contentType =
              \<lparr>content = [Text (''Error uploading to R2: Upload failed: ''
                  @ string_of_nat (status presp) @ '' - '' @ statusText presp)]\<rparr>)"
    using upload_resolved [of put cfg uuid fileName contentType fileData Buffer_from presp]
    by (cases "status presp = 200 \<or> status presp = 201") simp_all
  show ?thesis
    using post_resolved_other [of post cfg text_in lang_in resp uuid]
      summarize_resolved_other [of post cfg text_in' resp] kv up
    by blast
qed

text \<open>
  Status 201 on the speech call, 500 on the lookup and 204 on the upload.
\<close>

theorem upstream_success_classification_witness:
  "fetchAudioAndSave example_cfg
     (answer3 (Inr \<lparr>status = 201, statusText = ''Created'', data = Some ''SUQz''\<rparr>))
     ''1b9d6bcd'' (Some ''hello'') None =
     \<lparr>content = [Text ''Error: Request failed: 201 - Created'']\<rparr>
   \<and> getFromCloudflareKV example_cfg
       (answer2 (Inr \<lparr>status = 500, statusText = ''Internal Server Error'',
                      data = StringValue []\<rparr>))
       example_encodeURIComponent null_stringify ''missing-key'' None =
       \<lparr>content = [Text
          ''Error retrieving from Cloudflare KV: Request failed: 500 - Internal Server Error'']\<rparr>
   \<and> uploadAudioToR2 example_cfg
       (answer3 (Inr \<lparr>status = 204, statusText = ''No Content'', data = ()\<rparr>))
       example_Buffer_from ''1b9d6bcd'' ''UklGRg=='' None None =
       \<lparr>content = [Text ''Error uploading to R2: Upload failed: 204 - No Content'']\<rparr>"
proof -
  have n201: "string_of_nat 201 = ''201''" by code_simp
  have n500: "string_of_nat 500 = ''500''" by code_simp
  have n204: "string_of_nat 204 = ''204''" by code_simp
  show ?thesis
    using upstream_success_classification [where cfg = example_cfg
      and post = "answer3 (Inr \<lparr>status = 201, statusText = ''Created'', data = Some ''SUQz''\<rparr>)"
      and resp = "\<lparr>status = 201, statusText = ''Created'', data = Some ''SUQz''\<rparr>"
      and kv = "answer2 (Inr \<lparr>status = 500, statusText = ''Internal Server Error'',
                      data = StringValue []\<rparr>)"
      and kresp = "\<lparr>status = 500, statusText = ''Internal Server Error'',
                      data = StringValue []\<rparr>"
      and put = "answer3 (Inr \<lparr>status = 204, statusText = ''No Content'', data = ()\<rparr>)"
      and presp = "\<lparr>status = 204, statusText = ''No Content'', data = ()\<rparr>"
      and text_in = "Some ''hello''" and lang_in = None and uuid = "''1b9d6bcd''"
      and Buffer_from = example_Buffer_from
      and fileData = "''UklGRg==''" and fileName = None and contentType = None
      and encodeURIComponent = example_encodeURIComponent and key = "''missing-key''"
      and encodedKey = "''missing-key''" and namespaceId = None and stringify = null_stringify]
    by (simp add: answer3_def answer2_def example_encodeURIComponent_def n201 n500 n204)
qed

text \<open>
  Claim C7 as stated fails for the upload: status 201 is a success there.
\<close>

theorem created_status_counterexample:
  "uploadAudioToR2 example_cfg
     (answer3 (Inr \<lparr>status = 201, statusText = ''Created'', data = ()\<rparr>))
     example_Buffer_from ''1b9d6bcd'' ''UklGRg=='' (Some ''a.wav'') None =
   \<lparr>content =
      [Text (''File successfully uploaded to R2 storage.'' @ [CHR 0x0A]
             @ ''File: a.wav'' @ [CHR 0x0A]
             @ ''URL: https://pub-3bf40eb073024dc2846e1518b851c583.r2.dev/a.wav'' @ [CHR 0x0A]
             @ ''Type: audio/wav''),
       Resource \<lparr>uri = ''https://pub-3bf40eb073024dc2846e1518b851c583.r2.dev/a.wav'',
                 blob = Some ''UklGRg=='', rtext = None, mimeType = Some ''audio/wav''\<rparr>]\<rparr>"
  by (simp add: uploadAudioToR2_def uploadAudioToR2_try_def Let_def answer3_def R2_URL_def
        finalFileName_def finalContentType_def js_or_def startsWith_def)

section \<open>The uploaded payload\<close>

text \<open>
  Claim C8 (media type classification). With no declared content type (absent, or empty,
  which \<^verbatim>\<open>!finalContentType\<close> treats alike), a payload that starts with \<^verbatim>\<open>UklGR\<close> resolves to
  \<^verbatim>\<open>audio/wav\<close> with extension \<^verbatim>\<open>wav\<close>, and any other payload to \<^verbatim>\<open>audio/mp3\<close> with extension
  \<^verbatim>\<open>mp3\<close>; the generated file name carries that extension.
\<close>

theorem media_type_classification:
  assumes "contentType = None \<or> contentType = Some []"
  shows "(startsWith fileData ''UklGR'' \<longrightarrow>
            finalContentType contentType fileData = ''audio/wav'' \<and>
            extension (finalContentType contentType fileData) = ''wav'' \<and>
            finalFileName uuid None contentType fileData = ''audio-'' @ uuid @ ''.wav'')
       \<and> (\<not> startsWith fileData ''UklGR'' \<longrightarrow>
            finalContentType contentType fileData = ''audio/mp3'' \<and>
            extension (finalContentType contentType fileData) = ''mp3'' \<and>
            finalFileName uuid None contentType fileData = ''audio-'' @ uuid @ ''.mp3'')"
  using assms
  by (auto simp: finalContentType_def extension_def finalFileName_def js_or_def startsWith_def)

text \<open>
  A payload with the RIFF signature and one without.
\<close>

theorem media_type_classification_witness:
  "finalContentType None ''UklGRg=='' = ''audio/wav''
   \<and> extension (finalContentType None ''UklGRg=='') = ''wav''
   \<and> finalFileName ''1b9d6bcd'' None None ''UklGRg=='' = ''audio-1b9d6bcd.wav''
   \<and> finalContentType None ''SUQz'' = ''audio/mp3''
   \<and> extension (finalContentType None ''SUQz'') = ''mp3''"
  using media_type_classification [of None "''UklGRg==''" "''1b9d6bcd''"]
    media_type_classification [of None "''SUQz''" "''1b9d6bcd''"]
  by (simp add: startsWith_def extension_def)

text \<open>
  Claim C9 (payload round trip). When the upload succeeds, the resource of the result
  carries in \<open>blob\<close> the \<open>fileData\<close> the tool was given, unchanged; when the speech call
  succeeds, \<open>blob\<close> is the audio string of the response, unchanged.
\<close>

theorem payload_round_trip:
  "(put (uploadUrl cfg (finalFileName uuid fileName contentType fileData))
        (Buffer_from fileData)
        (upload_headers cfg (finalContentType contentType fileData)
           (length (Buffer_from fileData))) = Inr resp
      \<and> (status resp = 200 \<or> status resp = 201)
    \<longrightarrow> (\<exists>t r. content (uploadAudioToR2 cfg put Buffer_from uuid fileData fileName contentType)
                 = [Text t, Resource r] \<and> blob r = Some fileData))
   \<and> (post (tts_apiUrl cfg) (tts_payload text_in lang_in) (json_headers cfg) = Inr resp'
      \<and> status resp' = 200 \<and> data resp' = Some audio \<and> audio \<noteq> []
    \<longrightarrow> (\<exists>t r. content (fetchAudioAndSave cfg post uuid text_in lang_in)
                 = [Text t, Resource r] \<and> blob r = Some audio))"
  by (auto simp: uploadAudioToR2_def uploadAudioToR2_try_def Let_def
                 fetchAudioAndSave_def fetchAudioAndSave_try_def)

text \<open>
  An upload answered with 200 and a speech call answered with audio.
\<close>

theorem payload_round_trip_witness:
  "(\<exists>t r. content (uploadAudioToR2 example_cfg
              (answer3 (Inr \<lparr>status = 200, statusText = ''OK'', data = ()\<rparr>))
              example_Buffer_from ''1b9d6bcd'' ''UklGRg=='' None None) = [Text t, Resource r]
          \<and> blob r = Some ''UklGRg=='')
   \<and> (\<exists>t r. content (fetchAudioAndSave example_cfg
              (answer3 (Inr \<lparr>status = 200, statusText = ''OK'', data = Some ''SUQz''\<rparr>))
              ''1b9d6bcd'' (Some ''hello'') None) = [Text t, Resource r]
          \<and> blob r = Some ''SUQz'')"
  using payload_round_trip [where cfg = example_cfg
      and put = "answer3 (Inr \<lparr>status = 200, statusText = ''OK'', data = ()\<rparr>)"
      and resp = "\<lparr>status = 200, statusText = ''OK'', data = ()\<rparr>"
      and post = "answer3 (Inr \<lparr>status = 200, statusText = ''OK'', data = Some ''SUQz''\<rparr>)"
      and resp' = "\<lparr>status = 200, statusText = ''OK'', data = Some ''SUQz''\<rparr>"
      and audio = "''SUQz''"
      and Buffer_from = example_Buffer_from and uuid = "''1b9d6bcd''"
      and fileData = "''UklGRg==''" and fileName = None and contentType = None
      and text_in = "Some ''hello''" and lang_in = None]
  by (simp add: answer3_def)

text \<open>
  Claim C10 (status 200 without the payload). A response with status 200 whose
  \<^verbatim>\<open>result.audio\<close>, respectively \<^verbatim>\<open>result.summary\<close>, is missing (or empty) is not a success:
  the result is the single text \<^verbatim>\<open>Error: Audio data not found in the response.\<close>,
  respectively \<^verbatim>\<open>Error: Summary data not found in the response.\<close>.
\<close>

theorem missing_payload_is_error:
  assumes "status resp = 200" and "data resp = None \<or> data resp = Some []"
  shows "(post (tts_apiUrl cfg) (tts_payload text_in lang_in) (json_headers cfg) = Inr resp \<longrightarrow>
            fetchAudioAndSave cfg post uuid text_in lang_in =
              \<lparr>content = [Text ''Error: Audio data not found in the response.'']\<rparr>)
       \<and> (post (summarize_apiUrl cfg) (summarize_payload text_in') (json_headers cfg) = Inr resp \<longrightarrow>
            summarizeText cfg post text_in' =
              \<lparr>content = [Text ''Error: Summary data not found in the response.'']\<rparr>)
       \<and> str_includes ''Error: Audio data not found in the response.'' ''Error''
       \<and> str_includes ''Error: Summary data not found in the response.'' ''Error''"
  using assms
  by (auto simp: fetchAudioAndSave_def fetchAudioAndSave_try_def summarizeText_def
        summarizeText_try_def bestEffortMessage_Error startsWith_def)

text \<open>
  Both tools against a response with status 200 and no payload.
\<close>

theorem missing_payload_is_error_witness:
  "fetchAudioAndSave example_cfg
     (answer3 (Inr \<lparr>status = 200, statusText = ''OK'', data = None\<rparr>))
     ''1b9d6bcd'' (Some ''hello'') None =
     \<lparr>content = [Text ''Error: Audio data not found in the response.'']\<rparr>
   \<and> summarizeText example_cfg
       (answer3 (Inr \<lparr>status = 200, statusText = ''OK'', data = None\<rparr>)) ''a long text'' =
       \<lparr>content = [Text ''Error: Summary data not found in the response.'']\<rparr>"
  using missing_payload_is_error [where cfg = example_cfg
      and resp = "\<lparr>status = 200, statusText = ''OK'', data = None\<rparr>"
      and post = "answer3 (Inr \<lparr>status = 200, statusText = ''OK'', data = None\<rparr>)"
      and uuid = "''1b9d6bcd''" and text_in = "Some ''hello''" and lang_in = None
      and text_in' = "''a long text''"]
  by (simp add: answer3_def)

end
